theory Spec2Isabelle
  imports Main "HOL-Library.Multiset"
begin

section \<open>Data model\<close>

text \<open>
  Identifiers are the store's object ids, carried as the strings that
  \<^verbatim>\<open>_id.toString()\<close> renders. Timestamps are instants on an integer time line.
\<close>

type_synonym oid = string

text \<open>\<^verbatim>\<open>models/user.js\<close>: the stored user document (\<^verbatim>\<open>_doc\<close>).\<close>

record user_doc =
  u_id :: oid
  u_email :: string
  u_password :: string
  u_name :: string
  u_status :: string
  u_posts :: "oid list"

text \<open>\<^verbatim>\<open>models/post.js\<close>: the stored post document, with the two timestamps.\<close>

record post_doc =
  p_id :: oid
  p_title :: string
  p_imageUrl :: string
  p_content :: string
  p_creator :: oid
  p_createdAt :: int
  p_updatedAt :: int

text \<open>The GraphQL input objects \<^verbatim>\<open>UserInputData\<close> and \<^verbatim>\<open>PostInputData\<close>.\<close>

record userInputData =
  email :: string
  name :: string
  password :: string

record postInputData =
  title :: string
  content :: string
  imageUrl :: string

text \<open>
  A thrown JavaScript \<^verbatim>\<open>Error\<close>: its message, and the \<^verbatim>\<open>code\<close> and \<^verbatim>\<open>data\<close>
  properties when the resolver attached them. The \<^verbatim>\<open>data\<close> list holds the
  \<^verbatim>\<open>{ message }\<close> records, each by its message.
\<close>

datatype error = Error (err_message: string) (err_code: "nat option") (err_data: "string list option")

text \<open>Reading a property of \<^verbatim>\<open>null\<close> or \<^verbatim>\<open>undefined\<close> throws a TypeError: no code, no data.\<close>

definition typeError :: error where
  "typeError = Error ''TypeError'' None None"

text \<open>
  \<^verbatim>\<open>findById\<close> and \<^verbatim>\<open>findByIdAndRemove\<close> cast their argument to an object id before
  the query is sent; a string that does not cast makes them throw a CastError, which has
  no code and no data either.
\<close>

definition castError :: error where
  "castError = Error ''CastError'' None None"

text \<open>The result of \<^verbatim>\<open>jwt.verify\<close>: it throws, or returns a falsy value, or the payload's userId.\<close>

datatype jwt_result = JwtThrows | JwtFalsy | JwtPayload oid

text \<open>
  The libraries the resolvers call (validator's e-mail check, bcryptjs, jsonwebtoken,
  Date rendering, object-id generation), the test whether a string casts to an object id
  and the error with which the store driver rejects a query are parameters of the model.
\<close>

record lib =
  isEmail :: "string \<Rightarrow> bool"
  bcrypt_hash :: "string \<Rightarrow> string"
  bcrypt_compare :: "string \<Rightarrow> string \<Rightarrow> bool"
  jwt_sign :: "oid \<Rightarrow> string \<Rightarrow> string"
  jwt_verify :: "string option \<Rightarrow> jwt_result"
  toISOString :: "int \<Rightarrow> string"
  objectId :: "nat \<Rightarrow> oid"
  castable :: "string \<Rightarrow> bool"
  rejected :: error

text \<open>\<^verbatim>\<open>validator.isEmpty\<close> and \<^verbatim>\<open>validator.isLength(str, { min })\<close>.\<close>

definition isEmpty :: "string \<Rightarrow> bool" where
  "isEmpty str = (length str = 0)"

definition isLength :: "string \<Rightarrow> nat \<Rightarrow> bool" where
  "isLength str mn = (mn \<le> length str)"

section \<open>The store, the file system and the trace of what a call touches\<close>

text \<open>
  The two collections are lists in insertion order. Besides them the state holds the paths
  of the stored files, the clock, the supply of object ids, and a trace: every call
  issued to the store or to the file system appends one event, so the trace tells which
  calls were made and in which order.
\<close>

datatype event =
    FindUserByEmail string
  | FindUserById oid
  | FindUsersByIds "oid list"
  | SaveUser oid
  | FindPostById oid
  | SavePost oid
  | RemovePost oid
  | CountPosts
  | FindPosts int nat
  | WriteFile string
  | Unlink string

record state =
  user_docs :: "user_doc list"
  post_docs :: "post_doc list"
  files :: "string list"
  trace :: "event list"
  idSeed :: nat
  now :: int

definition emit :: "event \<Rightarrow> state \<Rightarrow> state" where
  "emit e s = s\<lparr>trace := trace s @ [e]\<rparr>"

text \<open>Events that change the store or the file system, as opposed to reads.\<close>

fun is_effect :: "event \<Rightarrow> bool" where
  "is_effect (SaveUser _) = True"
| "is_effect (SavePost _) = True"
| "is_effect (RemovePost _) = True"
| "is_effect (WriteFile _) = True"
| "is_effect (Unlink _) = True"
| "is_effect _ = False"

text \<open>
  \<^verbatim>\<open>User.findOne({ email })\<close> and \<^verbatim>\<open>User.findById(id)\<close>. A failed cast throws before
  the store is called, so it leaves no event.
\<close>

definition User_findOne :: "string \<Rightarrow> state \<Rightarrow> user_doc option \<times> state" where
  "User_findOne em s = (find (\<lambda>u. u_email u = em) (user_docs s), emit (FindUserByEmail em) s)"

definition User_findById :: "lib \<Rightarrow> string \<Rightarrow> state \<Rightarrow> (error + user_doc option) \<times> state" where
  "User_findById L i s =
     (if \<not> castable L i then (Inl castError, s)
      else (Inr (find (\<lambda>u. u_id u = i) (user_docs s)), emit (FindUserById i) s))"

text \<open>
  \<^verbatim>\<open>new User({ email, name, password })\<close>: a fresh object id, the schema default for
  the status, an empty post list.
\<close>

definition new_User :: "lib \<Rightarrow> string \<Rightarrow> string \<Rightarrow> string \<Rightarrow> state \<Rightarrow> user_doc \<times> state" where
  "new_User L em nm pw s =
     (\<lparr>u_id = objectId L (idSeed s), u_email = em, u_password = pw, u_name = nm,
       u_status = ''I am new!'', u_posts = []\<rparr>,
      s\<lparr>idSeed := Suc (idSeed s)\<rparr>)"

text \<open>
  \<^verbatim>\<open>user.save()\<close>: the document replaces the stored one with its id, or is inserted.
  The event records the call, whether or not a field had changed.
\<close>

definition User_save :: "user_doc \<Rightarrow> state \<Rightarrow> user_doc \<times> state" where
  "User_save u s =
     (u, emit (SaveUser (u_id u))
           (s\<lparr>user_docs :=
                (if \<exists>v \<in> set (user_docs s). u_id v = u_id u
                 then map (\<lambda>v. if u_id v = u_id u then u else v) (user_docs s)
                 else user_docs s @ [u])\<rparr>))"

text \<open>
  \<^verbatim>\<open>Post.findById(id)\<close>, and \<^verbatim>\<open>.populate('creator')\<close>, which resolves the creator
  references of the documents found, with one query when there are any.
\<close>

definition Post_findById :: "lib \<Rightarrow> string \<Rightarrow> state \<Rightarrow> (error + post_doc option) \<times> state" where
  "Post_findById L i s =
     (if \<not> castable L i then (Inl castError, s)
      else (Inr (find (\<lambda>p. p_id p = i) (post_docs s)), emit (FindPostById i) s))"

definition lookup_user :: "state \<Rightarrow> oid \<Rightarrow> user_doc option" where
  "lookup_user s i = find (\<lambda>u. u_id u = i) (user_docs s)"

definition populate :: "post_doc list \<Rightarrow> state \<Rightarrow> (post_doc \<times> user_doc option) list \<times> state" where
  "populate ps s =
     (map (\<lambda>p. (p, lookup_user s (p_creator p))) ps,
      if ps = [] then s else emit (FindUsersByIds (map p_creator ps)) s)"

definition populate_one :: "post_doc \<Rightarrow> state \<Rightarrow> (post_doc \<times> user_doc option) \<times> state" where
  "populate_one p s = ((p, lookup_user s (p_creator p)), emit (FindUsersByIds [p_creator p]) s)"

text \<open>
  \<^verbatim>\<open>new Post({ title, content, imageUrl, creator })\<close>: a fresh object id; the
  timestamps are assigned by the first save.
\<close>

definition new_Post :: "lib \<Rightarrow> string \<Rightarrow> string \<Rightarrow> string \<Rightarrow> oid \<Rightarrow> state \<Rightarrow> post_doc \<times> state" where
  "new_Post L t c img cr s =
     (\<lparr>p_id = objectId L (idSeed s), p_title = t, p_imageUrl = img, p_content = c,
       p_creator = cr, p_createdAt = 0, p_updatedAt = 0\<rparr>,
      s\<lparr>idSeed := Suc (idSeed s)\<rparr>)"

text \<open>
  \<^verbatim>\<open>post.save()\<close> with \<^verbatim>\<open>timestamps: true\<close>: an insert sets both timestamps; an update
  sets \<^verbatim>\<open>updatedAt\<close> when a field was modified.
\<close>

definition Post_save :: "post_doc \<Rightarrow> state \<Rightarrow> post_doc \<times> state" where
  "Post_save p s =
     (if \<exists>q \<in> set (post_docs s). p_id q = p_id p
      then (let p' = (if find (\<lambda>q. p_id q = p_id p) (post_docs s) = Some p then p
                      else p\<lparr>p_updatedAt := now s\<rparr>)
            in (p', emit (SavePost (p_id p))
                      (s\<lparr>post_docs := map (\<lambda>q. if p_id q = p_id p then p' else q) (post_docs s)\<rparr>)))
      else (let p' = p\<lparr>p_createdAt := now s, p_updatedAt := now s\<rparr>
            in (p', emit (SavePost (p_id p)) (s\<lparr>post_docs := post_docs s @ [p']\<rparr>))))"

text \<open>\<^verbatim>\<open>Post.findByIdAndRemove(id)\<close>: the removed document, or null.\<close>

definition Post_findByIdAndRemove :: "lib \<Rightarrow> string \<Rightarrow> state \<Rightarrow> (error + post_doc option) \<times> state" where
  "Post_findByIdAndRemove L i s =
     (if \<not> castable L i then (Inl castError, s)
      else (Inr (find (\<lambda>p. p_id p = i) (post_docs s)),
            emit (RemovePost i) (s\<lparr>post_docs := filter (\<lambda>p. p_id p \<noteq> i) (post_docs s)\<rparr>)))"

text \<open>\<^verbatim>\<open>Post.find().countDocuments()\<close>.\<close>

definition Post_countDocuments :: "state \<Rightarrow> nat \<times> state" where
  "Post_countDocuments s = (length (post_docs s), emit CountPosts s)"

text \<open>
  \<^verbatim>\<open>Post.find().sort({ createdAt: -1 })\<close>: newest first; documents created at the same
  instant keep their stored order.
\<close>

definition sort_createdAt_desc :: "post_doc list \<Rightarrow> post_doc list" where
  "sort_createdAt_desc ps = sort_key (\<lambda>p. - p_createdAt p) ps"

text \<open>
  \<^verbatim>\<open>Post.find().sort({ createdAt: -1 }).skip(k).limit(l)\<close>. The store rejects a negative
  skip; the resolver passes its skip on unchecked.
\<close>

definition Post_find_page :: "lib \<Rightarrow> int \<Rightarrow> nat \<Rightarrow> state \<Rightarrow> (error + post_doc list) \<times> state" where
  "Post_find_page L k l s =
     (if k < 0 then (Inl (rejected L), emit (FindPosts k l) s)
      else (Inr (take l (drop (nat k) (sort_createdAt_desc (post_docs s)))), emit (FindPosts k l) s))"

text \<open>
  \<^verbatim>\<open>util/file.js\<close>, \<^verbatim>\<open>clearImage\<close>: issues \<^verbatim>\<open>fs.unlink\<close> for the path under the
  backend directory. The callback only logs an error, so a missing file changes nothing
  and nothing is thrown.
\<close>

definition clearImage :: "string \<Rightarrow> state \<Rightarrow> state" where
  "clearImage filePath s = emit (Unlink filePath) (s\<lparr>files := removeAll filePath (files s)\<rparr>)"

section \<open>Request context and the result shapes\<close>

text \<open>
  The two fields the auth middleware sets on the request. \<^verbatim>\<open>userId\<close> is only assigned
  together with \<^verbatim>\<open>isAuth = true\<close>; it is the empty string while unassigned, where no
  resolver reads it.
\<close>

record req =
  isAuth :: bool
  userId :: oid

text \<open>
  \<^verbatim>\<open>{ ...user._doc, _id: user._id.toString() }\<close>: the spread copies every field of the
  stored document, the password among them. The GraphQL type \<^verbatim>\<open>User\<close> declares
  \<^verbatim>\<open>password: String\<close>, a nullable field that would be null were the key absent.
\<close>

record user_obj =
  o_id :: string
  o_name :: string
  o_email :: string
  o_password :: "string option"
  o_status :: string
  o_posts :: "oid list"

definition spread_user :: "user_doc \<Rightarrow> user_obj" where
  "spread_user d =
     \<lparr>o_id = u_id d, o_name = u_name d, o_email = u_email d, o_password = Some (u_password d),
      o_status = u_status d, o_posts = u_posts d\<rparr>"

text \<open>
  \<^verbatim>\<open>{ ...post._doc, _id: ..., createdAt: ....toISOString(), updatedAt: ....toISOString() }\<close>
  where the creator is the resolved user document, or null.
\<close>

record post_obj =
  po_id :: string
  po_title :: string
  po_content :: string
  po_imageUrl :: string
  po_creator :: "user_doc option"
  po_createdAt :: string
  po_updatedAt :: string

definition spread_post :: "lib \<Rightarrow> post_doc \<Rightarrow> user_doc option \<Rightarrow> post_obj" where
  "spread_post L p c =
     \<lparr>po_id = p_id p, po_title = p_title p, po_content = p_content p, po_imageUrl = p_imageUrl p,
      po_creator = c, po_createdAt = toISOString L (p_createdAt p),
      po_updatedAt = toISOString L (p_updatedAt p)\<rparr>"

record authData =
  token :: string
  authUserId :: string

record postData =
  pd_posts :: "post_obj list"
  totalPosts :: nat

section \<open>Resolvers\<close>

text \<open>The shared guard \<^verbatim>\<open>if (!req.isAuth) { ... error.code = 401; throw error; }\<close>.\<close>

definition notAuthenticated :: error where
  "notAuthenticated = Error ''Not authenticated!'' (Some 401) None"

text \<open>The validation block of \<^verbatim>\<open>createUser\<close>: both rules are checked, in this order.\<close>

definition userInput_errors :: "lib \<Rightarrow> userInputData \<Rightarrow> string list" where
  "userInput_errors L userInput =
     (if \<not> isEmail L (email userInput) then [''E-Mail is invalid.''] else []) @
     (if isEmpty (password userInput) \<or> \<not> isLength (password userInput) 5
      then [''Password too short!''] else [])"

text \<open>\<^verbatim>\<open>createUser\<close>. The argument \<^verbatim>\<open>userInput\<close> is nullable in the schema.\<close>

definition createUser :: "lib \<Rightarrow> userInputData option \<Rightarrow> req \<Rightarrow> state \<Rightarrow> (error + user_obj) \<times> state" where
  "createUser L userInput r s =
     (case userInput of
        None \<Rightarrow> (Inl typeError, s)
      | Some inp \<Rightarrow>
          let errors = userInput_errors L inp in
          if length errors > 0 then (Inl (Error ''Invalid input.'' (Some 422) (Some errors)), s)
          else
            (case User_findOne (email inp) s of
               (Some existingUser, s1) \<Rightarrow> (Inl (Error ''User exists already!'' None None), s1)
             | (None, s1) \<Rightarrow>
                 let hashedPw = bcrypt_hash L (password inp) in
                 (case new_User L (email inp) (name inp) hashedPw s1 of
                    (user, s2) \<Rightarrow>
                      (case User_save user s2 of
                         (createdUser, s3) \<Rightarrow> (Inr (spread_user createdUser), s3)))))"

text \<open>\<^verbatim>\<open>login\<close>.\<close>

definition login :: "lib \<Rightarrow> string \<Rightarrow> string \<Rightarrow> state \<Rightarrow> (error + authData) \<times> state" where
  "login L em pw s =
     (case User_findOne em s of
        (None, s1) \<Rightarrow> (Inl (Error ''User not found.'' (Some 401) None), s1)
      | (Some user, s1) \<Rightarrow>
          if \<not> bcrypt_compare L pw (u_password user)
          then (Inl (Error ''Password is incorrect.'' (Some 401) None), s1)
          else (Inr \<lparr>token = jwt_sign L (u_id user) (u_email user), authUserId = u_id user\<rparr>, s1))"

text \<open>The validation block shared by \<^verbatim>\<open>createPost\<close> and \<^verbatim>\<open>updatePost\<close>.\<close>

definition postInput_errors :: "postInputData \<Rightarrow> string list" where
  "postInput_errors postInput =
     (if isEmpty (title postInput) \<or> \<not> isLength (title postInput) 5
      then [''Title is invalid.''] else []) @
     (if isEmpty (content postInput) \<or> \<not> isLength (content postInput) 5
      then [''Content is invalid.''] else [])"

text \<open>
  \<^verbatim>\<open>createPost\<close>. The returned creator is the user object that was pushed to and
  saved, so it already lists the new post.
\<close>

definition createPost :: "lib \<Rightarrow> postInputData option \<Rightarrow> req \<Rightarrow> state \<Rightarrow> (error + post_obj) \<times> state" where
  "createPost L postInput r s =
     (if \<not> isAuth r then (Inl notAuthenticated, s)
      else
        (case postInput of
           None \<Rightarrow> (Inl typeError, s)
         | Some inp \<Rightarrow>
             let errors = postInput_errors inp in
             if length errors > 0 then (Inl (Error ''Invalid input.'' (Some 422) (Some errors)), s)
             else
               (case User_findById L (userId r) s of
                  (Inl e, s1) \<Rightarrow> (Inl e, s1)
                | (Inr None, s1) \<Rightarrow> (Inl (Error ''Invalid user.'' (Some 401) None), s1)
                | (Inr (Some user), s1) \<Rightarrow>
                    (case new_Post L (title inp) (content inp) (imageUrl inp) (u_id user) s1 of
                       (post, s2) \<Rightarrow>
                         (case Post_save post s2 of
                            (createdPost, s3) \<Rightarrow>
                              (case User_save (user\<lparr>u_posts := u_posts user @ [p_id createdPost]\<rparr>) s3 of
                                 (user', s4) \<Rightarrow>
                                   (Inr (spread_post L createdPost (Some user')), s4)))))))"

text \<open>\<^verbatim>\<open>posts\<close>. The argument \<^verbatim>\<open>page\<close> is a nullable GraphQL \<^verbatim>\<open>Int\<close>; \<^verbatim>\<open>!page\<close> holds
  when it is absent or zero.\<close>

definition perPage :: nat where
  "perPage = 2"

definition posts :: "lib \<Rightarrow> int option \<Rightarrow> req \<Rightarrow> state \<Rightarrow> (error + postData) \<times> state" where
  "posts L page r s =
     (if \<not> isAuth r then (Inl notAuthenticated, s)
      else
        let page' = (case page of None \<Rightarrow> 1 | Some n \<Rightarrow> if n = 0 then 1 else n) in
        (case Post_countDocuments s of
           (totalCount, s1) \<Rightarrow>
             (case Post_find_page L ((page' - 1) * int perPage) perPage s1 of
                (Inl e, s2) \<Rightarrow> (Inl e, s2)
              | (Inr found, s2) \<Rightarrow>
                  (case populate found s2 of
                     (ps, s3) \<Rightarrow>
                       (Inr \<lparr>pd_posts = map (\<lambda>(p, c). spread_post L p c) ps, totalPosts = totalCount\<rparr>,
                        s3)))))"

text \<open>\<^verbatim>\<open>post\<close>.\<close>

definition noPostFound :: error where
  "noPostFound = Error ''No post found!'' (Some 404) None"

definition post :: "lib \<Rightarrow> oid \<Rightarrow> req \<Rightarrow> state \<Rightarrow> (error + post_obj) \<times> state" where
  "post L i r s =
     (if \<not> isAuth r then (Inl notAuthenticated, s)
      else
        (case Post_findById L i s of
           (Inl e, s1) \<Rightarrow> (Inl e, s1)
         | (Inr None, s1) \<Rightarrow> (Inl noPostFound, s1)
         | (Inr (Some found), s1) \<Rightarrow>
             (case populate_one found s1 of
                ((p, creator), s2) \<Rightarrow> (Inr (spread_post L p creator), s2))))"

text \<open>
  \<^verbatim>\<open>updatePost\<close>. The populated creator is null when no user has the referenced id;
  \<^verbatim>\<open>post.creator._id\<close> then throws a TypeError.
\<close>

definition notAuthorized :: error where
  "notAuthorized = Error ''Not authorized!'' (Some 403) None"

definition updatePost :: "lib \<Rightarrow> oid \<Rightarrow> postInputData option \<Rightarrow> req \<Rightarrow> state \<Rightarrow> (error + post_obj) \<times> state" where
  "updatePost L i postInput r s =
     (if \<not> isAuth r then (Inl notAuthenticated, s)
      else
        (case Post_findById L i s of
           (Inl e, s1) \<Rightarrow> (Inl e, s1)
         | (Inr None, s1) \<Rightarrow> (Inl noPostFound, s1)
         | (Inr (Some found), s1) \<Rightarrow>
             (case populate_one found s1 of
                ((p, populated), s2) \<Rightarrow>
                  (case populated of
                     None \<Rightarrow> (Inl typeError, s2)
                   | Some creator \<Rightarrow>
                       if u_id creator \<noteq> userId r then (Inl notAuthorized, s2)
                       else
                         (case postInput of
                            None \<Rightarrow> (Inl typeError, s2)
                          | Some inp \<Rightarrow>
                              let errors = postInput_errors inp in
                              if length errors > 0
                              then (Inl (Error ''Invalid input.'' (Some 422) (Some errors)), s2)
                              else
                                let p1 = p\<lparr>p_title := title inp, p_content := content inp\<rparr>;
                                    p2 = (if imageUrl inp \<noteq> ''undefined''
                                          then p1\<lparr>p_imageUrl := imageUrl inp\<rparr> else p1)
                                in (case Post_save p2 s2 of
                                      (updatedPost, s3) \<Rightarrow>
                                        (Inr (spread_post L updatedPost (Some creator)), s3)))))))"

text \<open>
  \<^verbatim>\<open>deletePost\<close>. \<^verbatim>\<open>user.posts.pull(id)\<close> removes every occurrence of the id;
  \<^verbatim>\<open>user.posts\<close> on a null user throws a TypeError.
\<close>

definition deletePost :: "lib \<Rightarrow> oid \<Rightarrow> req \<Rightarrow> state \<Rightarrow> (error + bool) \<times> state" where
  "deletePost L i r s =
     (if \<not> isAuth r then (Inl notAuthenticated, s)
      else
        (case Post_findById L i s of
           (Inl e, s1) \<Rightarrow> (Inl e, s1)
         | (Inr None, s1) \<Rightarrow> (Inl noPostFound, s1)
         | (Inr (Some p), s1) \<Rightarrow>
             if p_creator p \<noteq> userId r then (Inl notAuthorized, s1)
             else
               let s2 = clearImage (p_imageUrl p) s1
               in (case Post_findByIdAndRemove L i s2 of
                     (Inl e, s3) \<Rightarrow> (Inl e, s3)
                   | (Inr removed, s3) \<Rightarrow>
                       (case User_findById L (userId r) s3 of
                          (Inl e, s4) \<Rightarrow> (Inl e, s4)
                        | (Inr None, s4) \<Rightarrow> (Inl typeError, s4)
                        | (Inr (Some user), s4) \<Rightarrow>
                            (case User_save (user\<lparr>u_posts := removeAll i (u_posts user)\<rparr>) s4 of
                               (user', s5) \<Rightarrow> (Inr True, s5))))))"

text \<open>\<^verbatim>\<open>user\<close> and \<^verbatim>\<open>updateStatus\<close>.\<close>

definition noUserFound :: error where
  "noUserFound = Error ''No user found!'' (Some 404) None"

definition user :: "lib \<Rightarrow> req \<Rightarrow> state \<Rightarrow> (error + user_obj) \<times> state" where
  "user L r s =
     (if \<not> isAuth r then (Inl notAuthenticated, s)
      else
        (case User_findById L (userId r) s of
           (Inl e, s1) \<Rightarrow> (Inl e, s1)
         | (Inr None, s1) \<Rightarrow> (Inl noUserFound, s1)
         | (Inr (Some u), s1) \<Rightarrow> (Inr (spread_user u), s1)))"

definition updateStatus :: "lib \<Rightarrow> string \<Rightarrow> req \<Rightarrow> state \<Rightarrow> (error + user_obj) \<times> state" where
  "updateStatus L status r s =
     (if \<not> isAuth r then (Inl notAuthenticated, s)
      else
        (case User_findById L (userId r) s of
           (Inl e, s1) \<Rightarrow> (Inl e, s1)
         | (Inr None, s1) \<Rightarrow> (Inl noUserFound, s1)
         | (Inr (Some u), s1) \<Rightarrow>
             (case User_save (u\<lparr>u_status := status\<rparr>) s1 of
                (u', s2) \<Rightarrow> (Inr (spread_user u'), s2))))"

section \<open>The auth middleware\<close>

text \<open>\<^verbatim>\<open>str.split(' ')\<close>, and the element at index 1 of the result (undefined when absent).\<close>

fun split_str :: "char \<Rightarrow> string \<Rightarrow> string list" where
  "split_str c [] = [[]]"
| "split_str c (x # xs) =
     (if x = c then [] # split_str c xs
      else (case split_str c xs of [] \<Rightarrow> [[x]] | w # ws \<Rightarrow> (x # w) # ws))"

definition bearer_segment :: "string \<Rightarrow> string option" where
  "bearer_segment authHeader =
     (case split_str (CHR '' '') authHeader of a # t # rest \<Rightarrow> Some t | _ \<Rightarrow> None)"

text \<open>A middleware either hands the request on with \<^verbatim>\<open>next()\<close> or throws.\<close>

datatype 'a passed = Next 'a | Thrown error

definition unauthenticated :: req where
  "unauthenticated = \<lparr>isAuth = False, userId = []\<rparr>"

text \<open>
  \<^verbatim>\<open>middleware/auth.js\<close>. \<^verbatim>\<open>!authHeader\<close> holds for a missing header and for an empty
  one; the \<^verbatim>\<open>try\<close>/\<^verbatim>\<open>catch\<close> turns a throwing \<^verbatim>\<open>jwt.verify\<close> into an unauthenticated
  request.
\<close>

definition auth :: "lib \<Rightarrow> string option \<Rightarrow> req passed" where
  "auth L authHeader =
     (case authHeader of
        None \<Rightarrow> Next unauthenticated
      | Some h \<Rightarrow>
          if h = [] then Next unauthenticated
          else
            (case jwt_verify L (bearer_segment h) of
               JwtThrows \<Rightarrow> Next unauthenticated
             | JwtFalsy \<Rightarrow> Next unauthenticated
             | JwtPayload uid \<Rightarrow> Next \<lparr>isAuth = True, userId = uid\<rparr>))"

section \<open>The GraphQL endpoint\<close>

datatype operation =
    Op_login string string
  | Op_createUser "userInputData option"
  | Op_createPost "postInputData option"
  | Op_posts "int option"
  | Op_post oid
  | Op_updatePost oid "postInputData option"
  | Op_deletePost oid
  | Op_user
  | Op_updateStatus string

datatype result =
    R_AuthData authData
  | R_User user_obj
  | R_Post post_obj
  | R_PostData postData
  | R_Boolean bool

definition tag :: "('a \<Rightarrow> result) \<Rightarrow> (error + 'a) \<times> state \<Rightarrow> (error + result) \<times> state" where
  "tag f x = (case x of (Inl e, s) \<Rightarrow> (Inl e, s) | (Inr v, s) \<Rightarrow> (Inr (f v), s))"

text \<open>\<^verbatim>\<open>rootValue: graphqlResolver\<close>: the executor calls the resolver named by the operation.\<close>

fun dispatch :: "lib \<Rightarrow> operation \<Rightarrow> req \<Rightarrow> state \<Rightarrow> (error + result) \<times> state" where
  "dispatch L (Op_login em pw) r s = tag R_AuthData (login L em pw s)"
| "dispatch L (Op_createUser userInput) r s = tag R_User (createUser L userInput r s)"
| "dispatch L (Op_createPost postInput) r s = tag R_Post (createPost L postInput r s)"
| "dispatch L (Op_posts page) r s = tag R_PostData (posts L page r s)"
| "dispatch L (Op_post i) r s = tag R_Post (post L i r s)"
| "dispatch L (Op_updatePost i postInput) r s = tag R_Post (updatePost L i postInput r s)"
| "dispatch L (Op_deletePost i) r s = tag R_Boolean (deletePost L i r s)"
| "dispatch L Op_user r s = tag R_User (user L r s)"
| "dispatch L (Op_updateStatus st) r s = tag R_User (updateStatus L st r s)"

text \<open>
  \<^verbatim>\<open>formatError\<close> in \<^verbatim>\<open>app.js\<close>. An error thrown by a resolver reaches it wrapped, with
  the resolver's error as \<^verbatim>\<open>originalError\<close> and its message; an error of the GraphQL
  layer itself has no \<^verbatim>\<open>originalError\<close> and is returned as it is.
\<close>

record gql_error =
  g_message :: string
  originalError :: "error option"

definition located :: "error \<Rightarrow> gql_error" where
  "located e = \<lparr>g_message = err_message e, originalError = Some e\<rparr>"

datatype formatted =
    Unchanged gql_error
  | Envelope (env_message: string) (env_status: nat) (env_data: "string list option")

definition formatError :: "gql_error \<Rightarrow> formatted" where
  "formatError err =
     (case originalError err of
        None \<Rightarrow> Unchanged err
      | Some orig \<Rightarrow>
          let data = err_data orig;
              message = (if g_message err = [] then ''An error occurred.'' else g_message err);
              code = (case err_code orig of None \<Rightarrow> 500 | Some c \<Rightarrow> if c = 0 then 500 else c)
          in Envelope message code data)"

text \<open>One call on \<^verbatim>\<open>/graphql\<close>: the auth middleware, then the resolver, then \<^verbatim>\<open>formatError\<close>.\<close>

definition graphql :: "lib \<Rightarrow> string option \<Rightarrow> operation \<Rightarrow> state \<Rightarrow> (formatted + result) \<times> state" where
  "graphql L authHeader op s =
     (case auth L authHeader of
        Thrown e \<Rightarrow> (Inl (formatError (located e)), s)
      | Next r \<Rightarrow>
          (case dispatch L op r s of
             (Inl e, s') \<Rightarrow> (Inl (formatError (located e)), s')
           | (Inr v, s') \<Rightarrow> (Inr v, s')))"

section \<open>The upload endpoint\<close>

record upload =
  mimetype :: string
  originalname :: string

record http_request =
  authorization :: "string option"
  image :: "upload option"
  oldPath :: "string option"

record response =
  res_status :: nat
  res_message :: string
  res_filePath :: "string option"

definition fileFilter :: "upload \<Rightarrow> bool" where
  "fileFilter file =
     (mimetype file = ''image/png'' \<or> mimetype file = ''image/jpg'' \<or> mimetype file = ''image/jpeg'')"

text \<open>
  \<^verbatim>\<open>multer({ storage: fileStorage, fileFilter }).single('image')\<close>: an accepted file is
  written under \<^verbatim>\<open>images\<close> with the time and its original name, and \<^verbatim>\<open>req.file\<close> is
  set; otherwise \<^verbatim>\<open>req.file\<close> stays undefined and nothing is written.
\<close>

definition multer_single :: "lib \<Rightarrow> upload option \<Rightarrow> state \<Rightarrow> string option \<times> state" where
  "multer_single L img s =
     (case img of
        None \<Rightarrow> (None, s)
      | Some file \<Rightarrow>
          if fileFilter file
          then (let path = ''images/'' @ toISOString L (now s) @ ''-'' @ originalname file
                in (Some path, emit (WriteFile path) (s\<lparr>files := files s @ [path]\<rparr>)))
          else (None, s))"

text \<open>The handler of \<^verbatim>\<open>app.put('/post-image', ...)\<close>.\<close>

definition put_post_image :: "req \<Rightarrow> string option \<Rightarrow> string option \<Rightarrow> state \<Rightarrow> (error + response) \<times> state" where
  "put_post_image r file old s =
     (if \<not> isAuth r then (Inl (Error ''Not authenticated!'' None None), s)
      else
        (case file of
           None \<Rightarrow> (Inr \<lparr>res_status = 200, res_message = ''No file provided!'', res_filePath = None\<rparr>, s)
         | Some path \<Rightarrow>
             let s1 = (case old of None \<Rightarrow> s | Some p \<Rightarrow> if p = [] then s else clearImage p s)
             in (Inr \<lparr>res_status = 201, res_message = ''File stored.'', res_filePath = Some path\<rparr>, s1)))"

text \<open>
  The global error handler: \<^verbatim>\<open>error.statusCode || 500\<close>, and no error of this
  application carries a \<^verbatim>\<open>statusCode\<close>.
\<close>

definition error_handler :: "error \<Rightarrow> response" where
  "error_handler e = \<lparr>res_status = 500, res_message = err_message e, res_filePath = None\<rparr>"

text \<open>One call on \<^verbatim>\<open>/post-image\<close>: multer, the auth middleware, the handler.\<close>

definition post_image :: "lib \<Rightarrow> http_request \<Rightarrow> state \<Rightarrow> response \<times> state" where
  "post_image L rq s =
     (case multer_single L (image rq) s of
        (file, s1) \<Rightarrow>
          (case auth L (authorization rq) of
             Thrown e \<Rightarrow> (error_handler e, s1)
           | Next r \<Rightarrow>
               (case put_post_image r file (oldPath rq) s1 of
                  (Inl e, s2) \<Rightarrow> (error_handler e, s2)
                | (Inr res, s2) \<Rightarrow> (res, s2))))"

section \<open>Predicates used in the statements\<close>

text \<open>\<^verbatim>\<open>login\<close> and \<^verbatim>\<open>createUser\<close> are the two resolvers that never read \<^verbatim>\<open>req.isAuth\<close>.\<close>

fun public_operation :: "operation \<Rightarrow> bool" where
  "public_operation (Op_login em pw) = True"
| "public_operation (Op_createUser userInput) = True"
| "public_operation op = False"

text \<open>Every post's creator reference resolves to a stored user.\<close>

definition creators_exist :: "state \<Rightarrow> bool" where
  "creators_exist s = (\<forall>p \<in> set (post_docs s). \<exists>u \<in> set (user_docs s). u_id u = p_creator p)"

text \<open>The page number a \<^verbatim>\<open>page\<close> argument stands for after \<^verbatim>\<open>if (!page) { page = 1; }\<close>.\<close>

definition page_number :: "int option \<Rightarrow> int" where
  "page_number page = (case page of None \<Rightarrow> 1 | Some n \<Rightarrow> if n = 0 then 1 else n)"

text \<open>The request of a caller whose token verified with the given userId.\<close>

definition authenticated :: "oid \<Rightarrow> req" where
  "authenticated uid = \<lparr>isAuth = True, userId = uid\<rparr>"

text \<open>Whether multer accepts the file of a request, if it has one.\<close>

definition accepted :: "http_request \<Rightarrow> bool" where
  "accepted rq = (case image rq of None \<Rightarrow> False | Some file \<Rightarrow> fileFilter file)"

section \<open>A concrete instance for worked examples\<close>

text \<open>
  Toy stand-ins for the library parameters: an e-mail check that looks for an at sign, a
  transparent hash, tokens that spell out the userId, tally marks for dates, object ids
  of 24 hexadecimal digits.
\<close>

definition demo_lib :: lib where
  "demo_lib =
     \<lparr>isEmail = (\<lambda>str. CHR ''@'' \<in> set str),
      bcrypt_hash = (\<lambda>pw. ''hash:'' @ pw),
      bcrypt_compare = (\<lambda>pw h. h = ''hash:'' @ pw),
      jwt_sign = (\<lambda>uid em. ''jwt.'' @ uid),
      jwt_verify = (\<lambda>t. case t of None \<Rightarrow> JwtThrows
                        | Some x \<Rightarrow> if take 4 x = ''jwt.'' then JwtPayload (drop 4 x) else JwtThrows),
      toISOString = (\<lambda>t. replicate (nat t) (CHR ''I'')),
      objectId = (\<lambda>n. take 24 (replicate n (CHR ''1'') @ replicate 24 (CHR ''0''))),
      castable = (\<lambda>str. length str = 24 \<and> list_all (\<lambda>c. c \<in> set ''0123456789abcdefABCDEF'') str),
      rejected = Error ''Skip value must be non-negative'' None None\<rparr>"

definition ann :: user_doc where
  "ann = \<lparr>u_id = ''5c0f66b979af55031b34728a'', u_email = ''ann@example.com'', u_password = ''hash:secret'',
          u_name = ''Ann'', u_status = ''I am new!'', u_posts = [''5c0f6a1079af55031b34728c'', ''5c0f6a1079af55031b34728e'']\<rparr>"

definition bob :: user_doc where
  "bob = \<lparr>u_id = ''5c0f66b979af55031b34728b'', u_email = ''bob@example.com'', u_password = ''hash:hunter2'',
          u_name = ''Bob'', u_status = ''I am new!'', u_posts = [''5c0f6a1079af55031b34728d'']\<rparr>"

definition post1 :: post_doc where
  "post1 = \<lparr>p_id = ''5c0f6a1079af55031b34728c'', p_title = ''First post'', p_imageUrl = ''images/one.png'',
            p_content = ''Hello there'', p_creator = ''5c0f66b979af55031b34728a'', p_createdAt = 1, p_updatedAt = 1\<rparr>"

definition post2 :: post_doc where
  "post2 = \<lparr>p_id = ''5c0f6a1079af55031b34728d'', p_title = ''Second post'', p_imageUrl = ''images/two.png'',
            p_content = ''Hello again'', p_creator = ''5c0f66b979af55031b34728b'', p_createdAt = 3, p_updatedAt = 3\<rparr>"

definition post3 :: post_doc where
  "post3 = \<lparr>p_id = ''5c0f6a1079af55031b34728e'', p_title = ''Third post'', p_imageUrl = ''images/three.png'',
            p_content = ''Hello world'', p_creator = ''5c0f66b979af55031b34728a'', p_createdAt = 2, p_updatedAt = 2\<rparr>"

definition demo_state :: state where
  "demo_state =
     \<lparr>user_docs = [ann, bob], post_docs = [post1, post2, post3],
      files = [''images/one.png'', ''images/two.png'', ''images/three.png''],
      trace = [], idSeed = 0, now = 4\<rparr>"

section \<open>Validation precedes the store\<close>

lemmas store_defs =
  User_findOne_def User_findById_def User_save_def new_User_def Post_findById_def
  populate_def populate_one_def lookup_user_def new_Post_def Post_save_def Post_findByIdAndRemove_def
  Post_countDocuments_def Post_find_page_def clearImage_def emit_def

text \<open>
  C3. A \<^verbatim>\<open>createUser\<close> input whose e-mail is malformed and whose password is empty or
  shorter than 5 characters is rejected with one error of code 422 whose data list holds
  both messages, the e-mail message first, and the state comes back as it was passed in:
  no store read or write was issued and nothing was recorded in the trace.
\<close>

theorem createUser_rejects_with_all_violations:
  assumes "\<not> isEmail L (email inp)"
    and "password inp = [] \<or> length (password inp) < 5"
  shows "createUser L (Some inp) r s =
           (Inl (Error ''Invalid input.'' (Some 422)
                  (Some [''E-Mail is invalid.'', ''Password too short!''])), s)"
  using assms by (auto simp: createUser_def userInput_errors_def isEmpty_def isLength_def)

theorem createUser_rejects_with_all_violations_witness:
  "\<not> isEmail demo_lib (email \<lparr>email = ''nobody'', name = ''N'', password = ''1234''\<rparr>) \<and>
   createUser demo_lib (Some \<lparr>email = ''nobody'', name = ''N'', password = ''1234''\<rparr>)
       unauthenticated demo_state =
     (Inl (Error ''Invalid input.'' (Some 422)
            (Some [''E-Mail is invalid.'', ''Password too short!''])), demo_state)"
proof -
  have a: "\<not> isEmail demo_lib (email \<lparr>email = ''nobody'', name = ''N'', password = ''1234''\<rparr>)"
    by (simp add: demo_lib_def)
  have b: "password \<lparr>email = ''nobody'', name = ''N'', password = ''1234''\<rparr> = [] \<or>
           length (password \<lparr>email = ''nobody'', name = ''N'', password = ''1234''\<rparr>) < 5"
    by simp
  show ?thesis
    using a createUser_rejects_with_all_violations [OF a b, of unauthenticated demo_state] by simp
qed

section \<open>The guard and the per-operation authentication check\<close>

text \<open>Every path of the middleware ends in \<^verbatim>\<open>next()\<close>; none throws.\<close>

lemma auth_passes: "\<exists>r. auth L authHeader = Next r"
  by (simp add: auth_def split: option.splits jwt_result.splits)

lemma auth_verified:
  "h \<noteq> [] \<Longrightarrow> jwt_verify L (bearer_segment h) = JwtPayload uid \<Longrightarrow>
   auth L (Some h) = Next (authenticated uid)"
  by (simp add: auth_def authenticated_def)

lemma dispatch_unauthenticated:
  "\<not> public_operation op \<Longrightarrow> \<not> isAuth r \<Longrightarrow> dispatch L op r s = (Inl notAuthenticated, s)"
  by (cases op)
     (simp_all add: tag_def createPost_def posts_def post_def updatePost_def deletePost_def
        user_def updateStatus_def)

lemma auth_failing:
  assumes "authHeader = None \<or>
     (\<exists>h. authHeader = Some h \<and> (\<forall>uid. jwt_verify L (bearer_segment h) \<noteq> JwtPayload uid))"
  shows "auth L authHeader = Next unauthenticated"
  using assms by (auto simp: auth_def split: jwt_result.splits)

text \<open>
  C7. When the Authorization header is absent, or its bearer segment does not verify
  (\<^verbatim>\<open>jwt.verify\<close> throws or yields a falsy value), the middleware hands the request on
  as unauthenticated and raises nothing. Every operation other than \<^verbatim>\<open>login\<close> and
  \<^verbatim>\<open>createUser\<close> then fails with code 401, whatever its arguments, and leaves the state
  as it was: no validation ran and no store call was issued.
\<close>

theorem unauthenticated_call_reaches_dispatch_and_fails_401:
  assumes "authHeader = None \<or>
     (\<exists>h. authHeader = Some h \<and> (\<forall>uid. jwt_verify L (bearer_segment h) \<noteq> JwtPayload uid))"
  shows "auth L authHeader = Next unauthenticated \<and>
         (\<forall>op s. \<not> public_operation op \<longrightarrow>
            dispatch L op unauthenticated s = (Inl (Error ''Not authenticated!'' (Some 401) None), s) \<and>
            graphql L authHeader op s = (Inl (Envelope ''Not authenticated!'' 401 None), s))"
proof -
  have a: "auth L authHeader = Next unauthenticated"
    using assms by (rule auth_failing)
  have d: "dispatch L op unauthenticated s = (Inl notAuthenticated, s)" if "\<not> public_operation op" for op s
    using that by (rule dispatch_unauthenticated) (simp add: unauthenticated_def)
  have f: "formatError (located notAuthenticated) = Envelope ''Not authenticated!'' 401 None"
    by (simp add: formatError_def located_def notAuthenticated_def)
  show ?thesis
    using a d f by (simp add: graphql_def notAuthenticated_def)
qed

theorem unauthenticated_call_reaches_dispatch_and_fails_401_witness:
  "auth demo_lib (Some ''Bearer forged'') = Next unauthenticated \<and>
   \<not> public_operation (Op_createPost (Some \<lparr>title = '''', content = '''', imageUrl = ''''\<rparr>)) \<and>
   graphql demo_lib (Some ''Bearer forged'')
       (Op_createPost (Some \<lparr>title = '''', content = '''', imageUrl = ''''\<rparr>)) demo_state =
     (Inl (Envelope ''Not authenticated!'' 401 None), demo_state)"
proof -
  have h: "Some ''Bearer forged'' = None \<or>
     (\<exists>h. Some ''Bearer forged'' = Some h \<and>
          (\<forall>uid. jwt_verify demo_lib (bearer_segment h) \<noteq> JwtPayload uid))"
    by (simp add: demo_lib_def bearer_segment_def)
  show ?thesis
    using unauthenticated_call_reaches_dispatch_and_fails_401 [OF h] by simp
qed

section \<open>Login failures\<close>

text \<open>
  C2, as stated, fails: with an unknown e-mail and with a known e-mail but a wrong password
  the status is 401 both times, but the messages surfaced to the caller differ, so the
  response tells the two conditions apart.
\<close>

theorem login_failures_distinguishable:
  "fst (graphql demo_lib None (Op_login ''nobody@example.com'' ''secret'') demo_state) =
     Inl (Envelope ''User not found.'' 401 None) \<and>
   fst (graphql demo_lib None (Op_login ''ann@example.com'' ''wrong'') demo_state) =
     Inl (Envelope ''Password is incorrect.'' 401 None) \<and>
   fst (graphql demo_lib None (Op_login ''nobody@example.com'' ''secret'') demo_state) \<noteq>
   fst (graphql demo_lib None (Op_login ''ann@example.com'' ''wrong'') demo_state)"
  by (simp add: graphql_def auth_def tag_def login_def User_findOne_def demo_state_def demo_lib_def
        ann_def bob_def formatError_def located_def)

text \<open>
  C2, amended. A login with an unknown e-mail fails with code 401 and the message
  \<^verbatim>\<open>User not found.\<close>; a login with a known e-mail and a password that does not match the
  stored hash fails with code 401 and the message \<^verbatim>\<open>Password is incorrect.\<close>. Neither
  carries data.
\<close>

theorem login_failures_401_with_own_message:
  "(find (\<lambda>u. u_email u = em) (user_docs s) = None \<longrightarrow>
      fst (login L em pw s) = Inl (Error ''User not found.'' (Some 401) None) \<and>
      fst (graphql L authHeader (Op_login em pw) s) = Inl (Envelope ''User not found.'' 401 None)) \<and>
   (\<forall>u. find (\<lambda>u. u_email u = em) (user_docs s) = Some u \<and> \<not> bcrypt_compare L pw (u_password u) \<longrightarrow>
      fst (login L em pw s) = Inl (Error ''Password is incorrect.'' (Some 401) None) \<and>
      fst (graphql L authHeader (Op_login em pw) s) = Inl (Envelope ''Password is incorrect.'' 401 None))"
proof -
  obtain r where r: "auth L authHeader = Next r"
    using auth_passes by blast
  show ?thesis
    by (simp add: graphql_def r tag_def login_def User_findOne_def formatError_def located_def)
qed

theorem login_failures_401_with_own_message_witness:
  "find (\<lambda>u. u_email u = ''nobody@example.com'') (user_docs demo_state) = None \<and>
   fst (graphql demo_lib None (Op_login ''nobody@example.com'' ''secret'') demo_state) =
     Inl (Envelope ''User not found.'' 401 None) \<and>
   find (\<lambda>u. u_email u = ''ann@example.com'') (user_docs demo_state) = Some ann \<and>
   \<not> bcrypt_compare demo_lib ''wrong'' (u_password ann) \<and>
   fst (graphql demo_lib None (Op_login ''ann@example.com'' ''wrong'') demo_state) =
     Inl (Envelope ''Password is incorrect.'' 401 None)"
proof -
  have a: "find (\<lambda>u. u_email u = ''nobody@example.com'') (user_docs demo_state) = None"
    by (simp add: demo_state_def ann_def bob_def)
  have b: "find (\<lambda>u. u_email u = ''ann@example.com'') (user_docs demo_state) = Some ann"
    by (simp add: demo_state_def ann_def)
  have c: "\<not> bcrypt_compare demo_lib ''wrong'' (u_password ann)"
    by (simp add: demo_lib_def ann_def)
  show ?thesis
    using a b c
      login_failures_401_with_own_message
        [where em = "''nobody@example.com''" and s = demo_state and L = demo_lib
           and pw = "''secret''" and authHeader = None]
      login_failures_401_with_own_message
        [where em = "''ann@example.com''" and s = demo_state and L = demo_lib
           and pw = "''wrong''" and authHeader = None]
    by blast
qed

section \<open>Registering an e-mail twice\<close>

text \<open>
  C8, as stated, fails: validation runs before the lookup, so a call with a registered
  e-mail and a password that is too short is rejected with code 422 and the list of
  violations, not with the generic error.
\<close>

theorem registered_email_short_password_is_422:
  "ann \<in> set (user_docs demo_state) \<and> u_email ann = ''ann@example.com'' \<and>
   fst (graphql demo_lib None
          (Op_createUser (Some \<lparr>email = ''ann@example.com'', name = ''Ann'', password = ''abc''\<rparr>))
          demo_state) =
     Inl (Envelope ''Invalid input.'' 422 (Some [''Password too short!'']))"
  by (simp add: graphql_def auth_def tag_def createUser_def userInput_errors_def isEmpty_def
        isLength_def demo_state_def demo_lib_def ann_def formatError_def located_def)

text \<open>
  C8, amended. A \<^verbatim>\<open>createUser\<close> call whose input passes validation and whose e-mail is
  already registered fails with the error \<^verbatim>\<open>User exists already!\<close>, which carries neither
  code nor data; \<^verbatim>\<open>formatError\<close> surfaces it with status 500. The only store access is
  the lookup by e-mail.
\<close>

theorem createUser_existing_email_is_500:
  assumes "isEmail L (email inp)" and "5 \<le> length (password inp)"
    and "\<exists>u \<in> set (user_docs s). u_email u = email inp"
  shows "createUser L (Some inp) r s =
           (Inl (Error ''User exists already!'' None None), emit (FindUserByEmail (email inp)) s) \<and>
         graphql L authHeader (Op_createUser (Some inp)) s =
           (Inl (Envelope ''User exists already!'' 500 None), emit (FindUserByEmail (email inp)) s)"
proof -
  obtain u where u: "find (\<lambda>u. u_email u = email inp) (user_docs s) = Some u"
    using assms(3) by (cases "find (\<lambda>u. u_email u = email inp) (user_docs s)") (auto simp: find_None_iff)
  have c: "createUser L (Some inp) r s =
           (Inl (Error ''User exists already!'' None None), emit (FindUserByEmail (email inp)) s)" for r
    using assms(1,2) u
    by (auto simp: createUser_def userInput_errors_def isEmpty_def isLength_def User_findOne_def)
  obtain r' where r': "auth L authHeader = Next r'"
    using auth_passes by blast
  show ?thesis
    by (simp add: c graphql_def r' tag_def formatError_def located_def)
qed

theorem createUser_existing_email_is_500_witness:
  "isEmail demo_lib (email \<lparr>email = ''ann@example.com'', name = ''Ann'', password = ''abcdef''\<rparr>) \<and>
   graphql demo_lib None
       (Op_createUser (Some \<lparr>email = ''ann@example.com'', name = ''Ann'', password = ''abcdef''\<rparr>))
       demo_state =
     (Inl (Envelope ''User exists already!'' 500 None),
      emit (FindUserByEmail ''ann@example.com'') demo_state)"
proof -
  let ?inp = "\<lparr>email = ''ann@example.com'', name = ''Ann'', password = ''abcdef''\<rparr>"
  have a: "isEmail demo_lib (email ?inp)"
    by (simp add: demo_lib_def)
  have b: "5 \<le> length (password ?inp)"
    by simp
  have c: "\<exists>u \<in> set (user_docs demo_state). u_email u = email ?inp"
    by (simp add: demo_state_def ann_def)
  show ?thesis
    using a createUser_existing_email_is_500 [OF a b c, of unauthenticated None] by simp
qed

section \<open>What a returned user object holds\<close>

text \<open>
  C1. Evaluated on the example store: the object returned by \<^verbatim>\<open>createUser\<close> and the one
  returned by the \<^verbatim>\<open>user\<close> query both carry the stored password hash in their
  \<^verbatim>\<open>password\<close> field.
\<close>

theorem user_objects_carry_password_hash:
  "map_sum id o_password
     (fst (createUser demo_lib
             (Some \<lparr>email = ''zoe@example.com'', name = ''Zoe'', password = ''secret''\<rparr>)
             unauthenticated demo_state)) = Inr (Some ''hash:secret'') \<and>
   map_sum id o_password (fst (user demo_lib (authenticated ''5c0f66b979af55031b34728a'') demo_state)) =
     Inr (Some (u_password ann))"
  by (simp add: createUser_def userInput_errors_def isEmpty_def isLength_def store_defs Let_def
        user_def authenticated_def spread_user_def demo_state_def demo_lib_def ann_def bob_def)

text \<open>The same holds for every successful call, not only on the example store.\<close>

lemma User_save_stored: "u \<in> set (user_docs (snd (User_save u s)))"
  by (auto simp: User_save_def emit_def)

lemma createUser_returns_stored_hash:
  assumes "fst (createUser L userInput r s) = Inr out"
  shows "\<exists>inp u. userInput = Some inp \<and> o_password out = Some (bcrypt_hash L (password inp)) \<and>
           u \<in> set (user_docs (snd (createUser L userInput r s))) \<and>
           u_email u = email inp \<and> u_password u = bcrypt_hash L (password inp) \<and>
           o_password out = Some (u_password u)"
proof (cases userInput)
  case None
  with assms show ?thesis by (simp add: createUser_def)
next
  case (Some inp)
  let ?s1 = "emit (FindUserByEmail (email inp)) s"
  let ?u = "fst (new_User L (email inp) (name inp) (bcrypt_hash L (password inp)) ?s1)"
  let ?s2 = "snd (new_User L (email inp) (name inp) (bcrypt_hash L (password inp)) ?s1)"
  from assms Some have ok: "userInput_errors L inp = []"
    and nf: "find (\<lambda>u. u_email u = email inp) (user_docs s) = None"
    by (auto simp: createUser_def User_findOne_def Let_def split: if_splits option.splits)
  have res: "createUser L userInput r s = (Inr (spread_user ?u), snd (User_save ?u ?s2))"
    using Some ok nf
    by (simp add: createUser_def User_findOne_def Let_def split_beta User_save_def)
  have "?u \<in> set (user_docs (snd (User_save ?u ?s2)))"
    by (rule User_save_stored)
  moreover have "u_email ?u = email inp" "u_password ?u = bcrypt_hash L (password inp)"
    by (simp_all add: new_User_def)
  moreover have "out = spread_user ?u"
    using assms res by simp
  ultimately show ?thesis
    using Some res by (auto simp: spread_user_def)
qed

lemma user_returns_stored_hash:
  assumes "fst (user L r s) = Inr out"
  shows "\<exists>u \<in> set (user_docs s). u_id u = userId r \<and> o_password out = Some (u_password u)"
  using assms
  by (auto simp: user_def store_defs spread_user_def find_Some_iff
        split: option.splits if_splits sum.splits)

section \<open>Uploads without an accepted file\<close>

text \<open>
  C10. When the request has no file, or multer's filter drops it, the endpoint leaves the
  state untouched (nothing is written, no unlink is issued, even with an \<^verbatim>\<open>oldPath\<close>),
  and an authenticated caller gets status 200 with the message \<^verbatim>\<open>No file provided!\<close>.
\<close>

theorem upload_without_accepted_file:
  assumes "\<not> accepted rq"
  shows "snd (post_image L rq s) = s \<and>
         (\<forall>r. auth L (authorization rq) = Next r \<and> isAuth r \<longrightarrow>
            fst (post_image L rq s) =
              \<lparr>res_status = 200, res_message = ''No file provided!'', res_filePath = None\<rparr>)"
proof -
  have m: "multer_single L (image rq) s = (None, s)"
    using assms by (simp add: accepted_def multer_single_def split: option.splits)
  obtain r where r: "auth L (authorization rq) = Next r"
    using auth_passes by blast
  show ?thesis
    by (simp add: post_image_def m r put_post_image_def)
qed

theorem upload_without_accepted_file_witness:
  "\<not> accepted \<lparr>authorization = Some ''Bearer jwt.5c0f66b979af55031b34728a'',
                image = Some \<lparr>mimetype = ''image/gif'', originalname = ''cat.gif''\<rparr>,
                oldPath = Some ''images/one.png''\<rparr> \<and>
   post_image demo_lib
       \<lparr>authorization = Some ''Bearer jwt.5c0f66b979af55031b34728a'',
        image = Some \<lparr>mimetype = ''image/gif'', originalname = ''cat.gif''\<rparr>,
        oldPath = Some ''images/one.png''\<rparr> demo_state =
     (\<lparr>res_status = 200, res_message = ''No file provided!'', res_filePath = None\<rparr>, demo_state)"
proof -
  let ?rq = "\<lparr>authorization = Some ''Bearer jwt.5c0f66b979af55031b34728a'',
              image = Some \<lparr>mimetype = ''image/gif'', originalname = ''cat.gif''\<rparr>,
              oldPath = Some ''images/one.png''\<rparr>"
  have a: "\<not> accepted ?rq"
    by (simp add: accepted_def fileFilter_def)
  have b: "auth demo_lib (authorization ?rq) = Next (authenticated ''5c0f66b979af55031b34728a'') \<and> isAuth (authenticated ''5c0f66b979af55031b34728a'')"
    by (simp add: auth_def bearer_segment_def demo_lib_def authenticated_def)
  show ?thesis
    using a b upload_without_accepted_file [OF a, of demo_lib demo_state]
    by (metis prod.collapse)
qed

section \<open>Existence, ownership, validation: the order of the checks\<close>



text \<open>
  The creator references stay resolvable: no operation removes a user, and a post is only
  ever saved with the id of a stored user as its creator.
\<close>

lemma creators_exist_initial: "post_docs s = [] \<Longrightarrow> creators_exist s"
  by (simp add: creators_exist_def)

lemma post_docs_User_save: "post_docs (snd (User_save u s)) = post_docs s"
  by (simp add: User_save_def emit_def)

lemma user_docs_Post_save: "user_docs (snd (Post_save p s)) = user_docs s"
  by (simp add: Post_save_def emit_def Let_def)

lemma user_id_kept_User_save:
  assumes "v \<in> set (user_docs s)"
  shows "\<exists>w \<in> set (user_docs (snd (User_save u s))). u_id w = u_id v"
proof (cases "\<exists>v \<in> set (user_docs s). u_id v = u_id u")
  case True
  let ?f = "\<lambda>v. if u_id v = u_id u then u else v"
  from True have "user_docs (snd (User_save u s)) = map ?f (user_docs s)"
    by (simp add: User_save_def emit_def)
  moreover from assms have "?f v \<in> set (map ?f (user_docs s))"
    by simp
  moreover have "u_id (?f v) = u_id v"
    by simp
  ultimately show ?thesis
    by (intro bexI [of _ "?f v"]) simp_all
next
  case False
  then have "user_docs (snd (User_save u s)) = user_docs s @ [u]"
    by (simp add: User_save_def emit_def)
  with assms show ?thesis
    by (intro bexI [of _ v]) simp_all
qed

lemma creators_exist_User_save:
  assumes "creators_exist s"
  shows "creators_exist (snd (User_save u s))"
  unfolding creators_exist_def post_docs_User_save
proof
  fix p
  assume "p \<in> set (post_docs s)"
  with assms obtain v where "v \<in> set (user_docs s)" and v: "u_id v = p_creator p"
    by (auto simp: creators_exist_def)
  then obtain w where "w \<in> set (user_docs (snd (User_save u s)))" "u_id w = u_id v"
    using user_id_kept_User_save by blast
  with v show "\<exists>u' \<in> set (user_docs (snd (User_save u s))). u_id u' = p_creator p"
    by (intro bexI [of _ w]) simp_all
qed

lemma creator_Post_save:
  assumes "q \<in> set (post_docs (snd (Post_save p s)))"
  shows "p_creator q = p_creator p \<or> q \<in> set (post_docs s)"
proof (cases "\<exists>q \<in> set (post_docs s). p_id q = p_id p")
  case True
  define p' where "p' = (if find (\<lambda>q. p_id q = p_id p) (post_docs s) = Some p then p
                         else p\<lparr>p_updatedAt := now s\<rparr>)"
  from True have "post_docs (snd (Post_save p s)) = map (\<lambda>q. if p_id q = p_id p then p' else q) (post_docs s)"
    by (simp add: Post_save_def emit_def Let_def p'_def)
  with assms have "q \<in> (\<lambda>q. if p_id q = p_id p then p' else q) ` set (post_docs s)"
    by simp
  then obtain q0 where "q0 \<in> set (post_docs s)" "q = (if p_id q0 = p_id p then p' else q0)"
    by (rule imageE)
  moreover have "p_creator p' = p_creator p"
    by (simp add: p'_def)
  ultimately show ?thesis
    by (cases "p_id q0 = p_id p") simp_all
next
  case False
  then have "post_docs (snd (Post_save p s)) = post_docs s @ [p\<lparr>p_createdAt := now s, p_updatedAt := now s\<rparr>]"
    by (simp add: Post_save_def emit_def Let_def)
  with assms show ?thesis by auto
qed

lemma creators_exist_Post_save:
  assumes "creators_exist s" and "\<exists>u \<in> set (user_docs s). u_id u = p_creator p"
  shows "creators_exist (snd (Post_save p s))"
  unfolding creators_exist_def user_docs_Post_save
proof
  fix q
  assume "q \<in> set (post_docs (snd (Post_save p s)))"
  then consider "p_creator q = p_creator p" | "q \<in> set (post_docs s)"
    using creator_Post_save by blast
  then show "\<exists>u \<in> set (user_docs s). u_id u = p_creator q"
  proof cases
    case 1
    with assms(2) show ?thesis by simp
  next
    case 2
    with assms(1) show ?thesis by (simp add: creators_exist_def)
  qed
qed

lemma creators_exist_emit [simp]: "creators_exist (emit e s) = creators_exist s"
  by (simp add: creators_exist_def emit_def)

lemma creators_exist_trace [simp]: "creators_exist (s\<lparr>trace := t\<rparr>) = creators_exist s"
  by (simp add: creators_exist_def)

lemma creators_exist_idSeed [simp]: "creators_exist (s\<lparr>idSeed := n\<rparr>) = creators_exist s"
  by (simp add: creators_exist_def)

lemma creators_exist_clearImage [simp]: "creators_exist (clearImage f s) = creators_exist s"
  by (simp add: creators_exist_def clearImage_def emit_def)

lemma creators_exist_remove:
  "creators_exist s \<Longrightarrow> creators_exist (snd (Post_findByIdAndRemove L i s))"
  by (simp add: creators_exist_def Post_findByIdAndRemove_def emit_def)

lemma creators_exist_createUser:
  "creators_exist s \<Longrightarrow> creators_exist (snd (createUser L userInput r s))"
  by (simp add: createUser_def User_findOne_def new_User_def Let_def split_beta
        creators_exist_User_save split: option.splits)

lemma creators_exist_updateStatus:
  "creators_exist s \<Longrightarrow> creators_exist (snd (updateStatus L st r s))"
  by (simp add: updateStatus_def User_findById_def split_beta creators_exist_User_save
        split: option.splits)

lemma creators_exist_deletePost:
  assumes "creators_exist s"
  shows "creators_exist (snd (deletePost L i r s))"
proof -
  have rm: "creators_exist (snd (Post_findByIdAndRemove L i (clearImage f (emit e s))))" for f e
    using assms by (intro creators_exist_remove) simp
  have rm': "creators_exist (emit e' (snd (Post_findByIdAndRemove L i (clearImage f (emit e s)))))" for f e e'
    using rm by simp
  show ?thesis
    using assms rm rm'
    by (auto simp: deletePost_def User_findById_def Post_findById_def Let_def split_beta
          split: option.splits sum.splits prod.splits intro!: creators_exist_User_save)
qed

lemma creators_exist_createPost:
  assumes "creators_exist s"
  shows "creators_exist (snd (createPost L postInput r s))"
proof (cases "find (\<lambda>u. u_id u = userId r) (user_docs s)")
  case None
  with assms show ?thesis
    by (simp add: createPost_def User_findById_def Let_def split: option.splits)
next
  case (Some usr)
  then have "usr \<in> set (user_docs s)"
    by (auto simp: find_Some_iff)
  then have ex: "\<exists>u \<in> set (user_docs s). u_id u = u_id usr"
    by auto
  have inv: "creators_exist (s\<lparr>trace := t, idSeed := n\<rparr>)" for t n
    using assms by (simp add: creators_exist_def)
  show ?thesis
    using assms Some
    by (auto simp: createPost_def User_findById_def new_Post_def emit_def Let_def split_beta
          inv ex split: option.splits
          intro!: creators_exist_User_save creators_exist_Post_save)
qed

lemma creators_exist_updatePost:
  assumes "creators_exist s"
  shows "creators_exist (snd (updatePost L i postInput r s))"
proof (cases "find (\<lambda>p. p_id p = i) (post_docs s)")
  case None
  with assms show ?thesis
    by (simp add: updatePost_def Post_findById_def)
next
  case (Some p)
  then have "p \<in> set (post_docs s)"
    by (auto simp: find_Some_iff)
  with assms have ex: "\<exists>u \<in> set (user_docs s). u_id u = p_creator p"
    by (simp add: creators_exist_def)
  have inv: "creators_exist (s\<lparr>trace := t\<rparr>)" for t
    using assms by (simp add: creators_exist_def)
  show ?thesis
    using assms Some
    by (auto simp: updatePost_def Post_findById_def populate_def populate_one_def lookup_user_def emit_def Let_def
          split_beta inv ex split: option.splits
          intro!: creators_exist_Post_save)
qed

lemma creators_exist_dispatch:
  assumes "creators_exist s"
  shows "creators_exist (snd (dispatch L op r s))"
proof -
  have t: "snd (tag f x) = snd x" for f :: "'a \<Rightarrow> result" and x
    by (simp add: tag_def split: prod.splits sum.splits)
  show ?thesis
  proof (cases op)
    case (Op_login em pw)
    with assms show ?thesis by (simp add: t login_def User_findOne_def split: option.splits)
  next
    case (Op_createUser userInput)
    with assms show ?thesis by (simp add: t creators_exist_createUser)
  next
    case (Op_createPost postInput)
    with assms show ?thesis by (simp add: t creators_exist_createPost)
  next
    case (Op_posts page)
    with assms show ?thesis
      by (simp add: t posts_def Post_countDocuments_def Post_find_page_def populate_def populate_one_def Let_def)
  next
    case (Op_post i)
    with assms show ?thesis
      by (simp add: t post_def Post_findById_def populate_def populate_one_def split: option.splits)
  next
    case (Op_updatePost i postInput)
    with assms show ?thesis by (simp add: t creators_exist_updatePost)
  next
    case (Op_deletePost i)
    with assms show ?thesis by (simp add: t creators_exist_deletePost)
  next
    case Op_user
    with assms show ?thesis by (simp add: t user_def User_findById_def split: option.splits)
  next
    case (Op_updateStatus st)
    with assms show ?thesis by (simp add: t creators_exist_updateStatus)
  qed
qed

lemma creators_exist_post_image:
  "creators_exist s \<Longrightarrow> creators_exist (snd (post_image L rq s))"
  by (simp add: post_image_def multer_single_def put_post_image_def error_handler_def
        creators_exist_def clearImage_def emit_def Let_def
        split: option.splits passed.splits prod.splits sum.splits)




section \<open>What a successful update changes\<close>

lemma find_replaced:
  assumes "\<exists>q \<in> set xs. p_id q = i" and "p_id p' = i"
  shows "find (\<lambda>q. p_id q = i) (map (\<lambda>q. if p_id q = i then p' else q) xs) = Some p'"
  using assms by (induction xs) auto

lemma filter_replaced:
  "p_id p' = i \<Longrightarrow>
   filter (\<lambda>q. p_id q \<noteq> i) (map (\<lambda>q. if p_id q = i then p' else q) xs) = filter (\<lambda>q. p_id q \<noteq> i) xs"
  by (induction xs) auto

lemma updatePost_success:
  assumes "fst (updatePost L i postInput r s) = Inr out"
  obtains inp p c where "isAuth r" and "castable L i" and "postInput = Some inp"
    and "find (\<lambda>p. p_id p = i) (post_docs s) = Some p"
    and "find (\<lambda>u. u_id u = p_creator p) (user_docs s) = Some c"
    and "u_id c = userId r" and "postInput_errors inp = []"
  using assms
  by (auto simp: updatePost_def Post_findById_def populate_one_def lookup_user_def emit_def Let_def
        split: if_splits option.splits)

text \<open>
  C6. After a successful \<^verbatim>\<open>updatePost\<close> the stored post has the supplied title and
  content; its image reference is the supplied one unless that is the string
  \<^verbatim>\<open>undefined\<close>, in which case the stored reference is kept. The post keeps its id,
  creator and creation time, and the other posts, the users and the files are left as
  they were.
\<close>

theorem updatePost_replaces_title_content_and_optionally_image:
  assumes "fst (updatePost L i postInput r s) = Inr out"
  shows "\<exists>inp p p'. postInput = Some inp \<and>
           find (\<lambda>p. p_id p = i) (post_docs s) = Some p \<and>
           find (\<lambda>p. p_id p = i) (post_docs (snd (updatePost L i postInput r s))) = Some p' \<and>
           p_title p' = title inp \<and> p_content p' = content inp \<and>
           p_imageUrl p' = (if imageUrl inp = ''undefined'' then p_imageUrl p else imageUrl inp) \<and>
           p_id p' = p_id p \<and> p_creator p' = p_creator p \<and> p_createdAt p' = p_createdAt p \<and>
           po_title out = title inp \<and> po_content out = content inp \<and>
           po_imageUrl out = p_imageUrl p' \<and>
           filter (\<lambda>q. p_id q \<noteq> i) (post_docs (snd (updatePost L i postInput r s))) =
             filter (\<lambda>q. p_id q \<noteq> i) (post_docs s) \<and>
           user_docs (snd (updatePost L i postInput r s)) = user_docs s \<and>
           files (snd (updatePost L i postInput r s)) = files s"
proof -
  from assms obtain inp p c where auth: "isAuth r" and cast: "castable L i"
    and inp: "postInput = Some inp"
    and p: "find (\<lambda>p. p_id p = i) (post_docs s) = Some p"
    and c: "find (\<lambda>u. u_id u = p_creator p) (user_docs s) = Some c"
    and own: "u_id c = userId r" and ok: "postInput_errors inp = []"
    by (rule updatePost_success)
  let ?s2 = "emit (FindUsersByIds [p_creator p]) (emit (FindPostById i) s)"
  define p2 where "p2 = (if imageUrl inp \<noteq> ''undefined''
       then p\<lparr>p_title := title inp, p_content := content inp, p_imageUrl := imageUrl inp\<rparr>
       else p\<lparr>p_title := title inp, p_content := content inp\<rparr>)"
  have run: "updatePost L i postInput r s =
               (Inr (spread_post L (fst (Post_save p2 ?s2)) (Some c)), snd (Post_save p2 ?s2))"
    using auth cast inp p c own ok
    by (simp add: updatePost_def Post_findById_def populate_one_def lookup_user_def emit_def Let_def
          split_beta p2_def)
  from p have pid: "p_id p = i" and pin: "p \<in> set (post_docs s)"
    by (auto simp: find_Some_iff)
  have p2id: "p_id p2 = i"
    by (simp add: p2_def pid)
  have ex: "\<exists>q \<in> set (post_docs ?s2). p_id q = p_id p2"
    using pin pid p2id by (auto simp: emit_def)
  define p' where "p' = fst (Post_save p2 ?s2)"
  have p'_cases: "p' = p2 \<or> p' = p2\<lparr>p_updatedAt := now ?s2\<rparr>"
    using ex by (simp add: p'_def Post_save_def Let_def)
  have docs: "post_docs (snd (Post_save p2 ?s2)) = map (\<lambda>q. if p_id q = i then p' else q) (post_docs s)"
    using ex by (simp add: p'_def Post_save_def Let_def emit_def p2id)
  have other: "user_docs (snd (Post_save p2 ?s2)) = user_docs s" "files (snd (Post_save p2 ?s2)) = files s"
    by (simp_all add: Post_save_def Let_def emit_def)
  have p'id: "p_id p' = i"
    using p'_cases p2id by auto
  have fields: "p_title p' = title inp" "p_content p' = content inp"
    "p_imageUrl p' = (if imageUrl inp = ''undefined'' then p_imageUrl p else imageUrl inp)"
    "p_creator p' = p_creator p" "p_createdAt p' = p_createdAt p"
    using p'_cases by (auto simp: p2_def)
  have found: "find (\<lambda>q. p_id q = i) (post_docs (snd (Post_save p2 ?s2))) = Some p'"
    unfolding docs using pin pid p'id by (intro find_replaced) auto
  have rest: "filter (\<lambda>q. p_id q \<noteq> i) (post_docs (snd (Post_save p2 ?s2))) =
              filter (\<lambda>q. p_id q \<noteq> i) (post_docs s)"
    unfolding docs using p'id by (rule filter_replaced)
  have out: "out = spread_post L p' (Some c)"
    using assms run by (simp add: p'_def)
  have st: "snd (updatePost L i postInput r s) = snd (Post_save p2 ?s2)"
    using run by simp
  show ?thesis
    unfolding st
    apply (rule exI [of _ inp], rule exI [of _ p], rule exI [of _ p'])
    using inp p found fields p'id pid rest other
    by (simp add: out spread_post_def)
qed

theorem updatePost_replaces_title_content_and_optionally_image_witness:
  "fst (updatePost demo_lib ''5c0f6a1079af55031b34728c''
          (Some \<lparr>title = ''Edited title'', content = ''Edited body'', imageUrl = ''undefined''\<rparr>)
          (authenticated ''5c0f66b979af55031b34728a'') demo_state) =
     Inr \<lparr>po_id = ''5c0f6a1079af55031b34728c'', po_title = ''Edited title'', po_content = ''Edited body'',
          po_imageUrl = ''images/one.png'', po_creator = Some ann, po_createdAt = ''I'',
          po_updatedAt = ''IIII''\<rparr> \<and>
   map_option p_title
     (find (\<lambda>p. p_id p = ''5c0f6a1079af55031b34728c'')
        (post_docs (snd (updatePost demo_lib ''5c0f6a1079af55031b34728c''
          (Some \<lparr>title = ''Edited title'', content = ''Edited body'', imageUrl = ''undefined''\<rparr>)
          (authenticated ''5c0f66b979af55031b34728a'') demo_state)))) = Some ''Edited title'' \<and>
   map_option p_imageUrl
     (find (\<lambda>p. p_id p = ''5c0f6a1079af55031b34728c'')
        (post_docs (snd (updatePost demo_lib ''5c0f6a1079af55031b34728c''
          (Some \<lparr>title = ''Edited title'', content = ''Edited body'', imageUrl = ''undefined''\<rparr>)
          (authenticated ''5c0f66b979af55031b34728a'') demo_state)))) = Some ''images/one.png''"
proof -
  let ?inp = "\<lparr>title = ''Edited title'', content = ''Edited body'', imageUrl = ''undefined''\<rparr>"
  let ?out = "\<lparr>po_id = ''5c0f6a1079af55031b34728c'', po_title = ''Edited title'', po_content = ''Edited body'',
          po_imageUrl = ''images/one.png'', po_creator = Some ann, po_createdAt = ''I'',
          po_updatedAt = ''IIII''\<rparr>"
  let ?run = "updatePost demo_lib ''5c0f6a1079af55031b34728c'' (Some ?inp) (authenticated ''5c0f66b979af55031b34728a'') demo_state"
  have h: "fst ?run = Inr ?out"
    by (simp add: updatePost_def store_defs postInput_errors_def isEmpty_def isLength_def Let_def
          spread_post_def authenticated_def demo_state_def demo_lib_def post1_def post2_def
          post3_def ann_def bob_def eval_nat_numeral)
  have f: "find (\<lambda>p. p_id p = ''5c0f6a1079af55031b34728c'') (post_docs demo_state) = Some post1"
    by (simp add: demo_state_def post1_def)
  from updatePost_replaces_title_content_and_optionally_image [OF h]
  obtain inp p p' where "Some ?inp = Some inp"
    and "find (\<lambda>p. p_id p = ''5c0f6a1079af55031b34728c'') (post_docs demo_state) = Some p"
    and "find (\<lambda>p. p_id p = ''5c0f6a1079af55031b34728c'') (post_docs (snd ?run)) = Some p'"
    and "p_title p' = title inp"
    and "p_imageUrl p' = (if imageUrl inp = ''undefined'' then p_imageUrl p else imageUrl inp)"
    by blast
  with f have "map_option p_title (find (\<lambda>p. p_id p = ''5c0f6a1079af55031b34728c'') (post_docs (snd ?run))) =
                 Some ''Edited title''"
    and "map_option p_imageUrl (find (\<lambda>p. p_id p = ''5c0f6a1079af55031b34728c'') (post_docs (snd ?run))) =
                 Some ''images/one.png''"
    by (auto simp: post1_def)
  with h show ?thesis by (intro conjI)
qed

section \<open>What a successful delete does, and in which order\<close>

lemma find_replaced_user:
  assumes "\<exists>v \<in> set xs. u_id v = i" and "u_id u' = i"
  shows "find (\<lambda>v. u_id v = i) (map (\<lambda>v. if u_id v = i then u' else v) xs) = Some u'"
  using assms by (induction xs) auto

lemma deletePost_success:
  assumes "fst (deletePost L i r s) = Inr b"
  obtains p u where "isAuth r" and "castable L i" and "castable L (userId r)"
    and "find (\<lambda>p. p_id p = i) (post_docs s) = Some p"
    and "p_creator p = userId r" and "find (\<lambda>v. u_id v = userId r) (user_docs s) = Some u"
  using assms
  by (auto simp: deletePost_def store_defs Let_def split: if_splits option.splits)

lemma deletePost_by_creator_succeeds:
  assumes "isAuth r" and "castable L i" and "castable L (userId r)"
    and "find (\<lambda>p. p_id p = i) (post_docs s) = Some p"
    and "p_creator p = userId r" and "find (\<lambda>v. u_id v = userId r) (user_docs s) = Some u"
  shows "fst (deletePost L i r s) = Inr True"
  using assms by (simp add: deletePost_def store_defs Let_def split_beta)

text \<open>An unlink of a file that is not there changes nothing and raises nothing.\<close>

lemma clearImage_missing_file:
  "filePath \<notin> set (files s) \<Longrightarrow> files (clearImage filePath s) = files s"
  by (simp add: clearImage_def emit_def)

text \<open>
  C9. A successful \<^verbatim>\<open>deletePost\<close> is a call by the post's creator, and it has exactly
  three effects, in this order: the unlink of the post's image path, the removal of the
  post, and the save of the caller's user document with the post's id pulled from its
  post list. Whether the image file exists plays no part: the unlink is issued and the
  two store writes follow either way.
\<close>

theorem deletePost_three_effects_in_order:
  assumes "fst (deletePost L i r s) = Inr b"
  shows "\<exists>p u. find (\<lambda>p. p_id p = i) (post_docs s) = Some p \<and> p_creator p = userId r \<and>
           find (\<lambda>v. u_id v = userId r) (user_docs s) = Some u \<and>
           filter is_effect (trace (snd (deletePost L i r s))) =
             filter is_effect (trace s) @ [Unlink (p_imageUrl p), RemovePost i, SaveUser (userId r)] \<and>
           trace (snd (deletePost L i r s)) =
             trace s @ [FindPostById i, Unlink (p_imageUrl p), RemovePost i,
                        FindUserById (userId r), SaveUser (userId r)] \<and>
           files (snd (deletePost L i r s)) = removeAll (p_imageUrl p) (files s) \<and>
           post_docs (snd (deletePost L i r s)) = filter (\<lambda>q. p_id q \<noteq> i) (post_docs s) \<and>
           find (\<lambda>p. p_id p = i) (post_docs (snd (deletePost L i r s))) = None \<and>
           find (\<lambda>v. u_id v = userId r) (user_docs (snd (deletePost L i r s))) =
             Some (u\<lparr>u_posts := removeAll i (u_posts u)\<rparr>) \<and>
           i \<notin> set (removeAll i (u_posts u)) \<and> b"
proof -
  from assms obtain p u where auth: "isAuth r"
    and ci: "castable L i" and cu: "castable L (userId r)"
    and p: "find (\<lambda>p. p_id p = i) (post_docs s) = Some p"
    and own: "p_creator p = userId r"
    and u: "find (\<lambda>v. u_id v = userId r) (user_docs s) = Some u"
    by (rule deletePost_success)
  from u have uid: "u_id u = userId r" and uin: "u \<in> set (user_docs s)"
    by (auto simp: find_Some_iff)
  let ?s4 = "emit (FindUserById (userId r))
               (snd (Post_findByIdAndRemove L i (clearImage (p_imageUrl p) (emit (FindPostById i) s))))"
  let ?u' = "u\<lparr>u_posts := removeAll i (u_posts u)\<rparr>"
  have users4: "user_docs ?s4 = user_docs s"
    using ci by (simp add: emit_def Post_findByIdAndRemove_def clearImage_def)
  have run: "deletePost L i r s = (Inr True, snd (User_save ?u' ?s4))"
    using auth ci cu p own u
    by (simp add: deletePost_def store_defs Let_def split_beta)
  have st: "snd (deletePost L i r s) = snd (User_save ?u' ?s4)"
    using run by simp
  have ex: "\<exists>v \<in> set (user_docs ?s4). u_id v = u_id ?u'"
    using uin by (auto simp: users4)
  have udocs: "user_docs (snd (User_save ?u' ?s4)) =
                 map (\<lambda>v. if u_id v = userId r then ?u' else v) (user_docs s)"
    using ex by (simp add: User_save_def emit_def users4 [unfolded emit_def] uid)
  have found: "find (\<lambda>v. u_id v = userId r) (user_docs (snd (User_save ?u' ?s4))) = Some ?u'"
    unfolding udocs using uin uid by (intro find_replaced_user) auto
  have tr: "trace (snd (User_save ?u' ?s4)) =
              trace s @ [FindPostById i, Unlink (p_imageUrl p), RemovePost i,
                         FindUserById (userId r), SaveUser (userId r)]"
    using ci by (simp add: User_save_def emit_def Post_findByIdAndRemove_def clearImage_def uid)
  have fl: "files (snd (User_save ?u' ?s4)) = removeAll (p_imageUrl p) (files s)"
    using ci by (simp add: User_save_def emit_def Post_findByIdAndRemove_def clearImage_def)
  have pd: "post_docs (snd (User_save ?u' ?s4)) = filter (\<lambda>q. p_id q \<noteq> i) (post_docs s)"
    using ci by (simp add: User_save_def emit_def Post_findByIdAndRemove_def clearImage_def)
  have gone: "find (\<lambda>p. p_id p = i) (filter (\<lambda>q. p_id q \<noteq> i) (post_docs s)) = None"
    by (simp add: find_None_iff)
  have b: "b"
    using assms run by simp
  show ?thesis
    unfolding st
    apply (rule exI [of _ p], rule exI [of _ u])
    using p own u found fl pd gone b
    by (simp add: tr)
qed

theorem deletePost_three_effects_in_order_witness:
  "fst (deletePost demo_lib ''5c0f6a1079af55031b34728c'' (authenticated ''5c0f66b979af55031b34728a'') (demo_state\<lparr>files := []\<rparr>)) = Inr True \<and>
   filter is_effect
     (trace (snd (deletePost demo_lib ''5c0f6a1079af55031b34728c'' (authenticated ''5c0f66b979af55031b34728a'') (demo_state\<lparr>files := []\<rparr>)))) =
     [Unlink ''images/one.png'', RemovePost ''5c0f6a1079af55031b34728c'', SaveUser ''5c0f66b979af55031b34728a''] \<and>
   map_option u_posts
     (find (\<lambda>v. u_id v = ''5c0f66b979af55031b34728a'')
        (user_docs (snd (deletePost demo_lib ''5c0f6a1079af55031b34728c'' (authenticated ''5c0f66b979af55031b34728a'')
           (demo_state\<lparr>files := []\<rparr>))))) = Some [''5c0f6a1079af55031b34728e'']"
proof -
  let ?s = "demo_state\<lparr>files := []\<rparr>"
  let ?run = "deletePost demo_lib ''5c0f6a1079af55031b34728c'' (authenticated ''5c0f66b979af55031b34728a'') ?s"
  have a: "isAuth (authenticated ''5c0f66b979af55031b34728a'')" and uid: "userId (authenticated ''5c0f66b979af55031b34728a'') = ''5c0f66b979af55031b34728a''"
    by (simp_all add: authenticated_def)
  have f: "find (\<lambda>p. p_id p = ''5c0f6a1079af55031b34728c'') (post_docs ?s) = Some post1"
    by (simp add: demo_state_def post1_def)
  have g: "find (\<lambda>v. u_id v = ''5c0f66b979af55031b34728a'') (user_docs ?s) = Some ann"
    by (simp add: demo_state_def ann_def)
  have c: "p_creator post1 = ''5c0f66b979af55031b34728a''" and img: "p_imageUrl post1 = ''images/one.png''"
    by (simp_all add: post1_def)
  have t0: "trace ?s = []"
    by (simp add: demo_state_def)
  have cp: "castable demo_lib ''5c0f6a1079af55031b34728c''"
    and cu: "castable demo_lib ''5c0f66b979af55031b34728a''"
    by (simp_all add: demo_lib_def)
  have h: "fst ?run = Inr True"
    using a cp cu f c g by (intro deletePost_by_creator_succeeds) (simp_all add: uid)
  from deletePost_three_effects_in_order [OF h]
  obtain p u where p: "find (\<lambda>p. p_id p = ''5c0f6a1079af55031b34728c'') (post_docs ?s) = Some p"
    and u: "find (\<lambda>v. u_id v = userId (authenticated ''5c0f66b979af55031b34728a'')) (user_docs ?s) = Some u"
    and tr: "filter is_effect (trace (snd ?run)) =
           filter is_effect (trace ?s) @
             [Unlink (p_imageUrl p), RemovePost ''5c0f6a1079af55031b34728c'', SaveUser (userId (authenticated ''5c0f66b979af55031b34728a''))]"
    and us: "find (\<lambda>v. u_id v = userId (authenticated ''5c0f66b979af55031b34728a'')) (user_docs (snd ?run)) =
           Some (u\<lparr>u_posts := removeAll ''5c0f6a1079af55031b34728c'' (u_posts u)\<rparr>)"
    by blast
  from p f have pp: "p = post1"
    by simp
  from u g have uu: "u = ann"
    by (simp add: uid)
  have "filter is_effect (trace (snd ?run)) =
                   [Unlink ''images/one.png'', RemovePost ''5c0f6a1079af55031b34728c'', SaveUser ''5c0f66b979af55031b34728a'']"
    using tr by (simp add: pp uid img t0)
  moreover have "map_option u_posts (find (\<lambda>v. u_id v = ''5c0f66b979af55031b34728a'') (user_docs (snd ?run))) = Some [''5c0f6a1079af55031b34728e'']"
    using us by (simp add: uu uid ann_def)
  ultimately have "filter is_effect (trace (snd ?run)) =
                   [Unlink ''images/one.png'', RemovePost ''5c0f6a1079af55031b34728c'', SaveUser ''5c0f66b979af55031b34728a'']"
    and "map_option u_posts (find (\<lambda>v. u_id v = ''5c0f66b979af55031b34728a'') (user_docs (snd ?run))) = Some [''5c0f6a1079af55031b34728e'']"
    by simp_all
  with h show ?thesis by (intro conjI)
qed

section \<open>Pagination\<close>

lemma page_number_nonneg: "0 \<le> page_number page \<longleftrightarrow> (case page of None \<Rightarrow> True | Some n \<Rightarrow> 0 \<le> n)"
  by (simp add: page_number_def split: option.splits)

lemma sort_createdAt_desc_sorted:
  "sorted_wrt (\<lambda>a b. p_createdAt b \<le> p_createdAt a) (sort_createdAt_desc ps)"
proof -
  have "sorted (map (\<lambda>p. - p_createdAt p) (sort_key (\<lambda>p. - p_createdAt p) ps))"
    by (rule sorted_sort_key)
  then show ?thesis
    by (simp add: sort_createdAt_desc_def sorted_map)
qed

lemma sort_createdAt_desc_mset: "mset (sort_createdAt_desc ps) = mset ps"
  by (simp add: sort_createdAt_desc_def)

lemma posts_run:
  assumes "isAuth r" and "0 \<le> page_number page"
  shows "fst (posts L page r s) =
           Inr \<lparr>pd_posts = map (\<lambda>p. spread_post L p (lookup_user s (p_creator p)))
                             (take 2 (drop (nat ((page_number page - 1) * 2))
                                (sort_createdAt_desc (post_docs s)))),
                totalPosts = length (post_docs s)\<rparr>"
proof -
  have k: "\<not> (page_number page - 1) * 2 < 0"
    using assms(2) by (auto simp: page_number_def split: option.splits if_splits)
  show ?thesis
    using assms(1) k
    by (simp add: posts_def page_number_def [symmetric] perPage_def Post_countDocuments_def
          Post_find_page_def populate_def populate_one_def lookup_user_def emit_def split_beta comp_def Let_def)
qed

text \<open>
  C4, as stated for every page argument, fails: for a negative page the resolver passes a
  negative skip to the store, which rejects the query, so the call fails instead of
  returning a page.
\<close>

theorem negative_page_is_rejected:
  "fst (posts demo_lib (Some (- 1)) (authenticated ''5c0f66b979af55031b34728a'') demo_state) =
     Inl (Error ''Skip value must be non-negative'' None None)"
  by (simp add: posts_def perPage_def Post_countDocuments_def Post_find_page_def emit_def
        authenticated_def demo_lib_def)

text \<open>
  C4, amended. For an authenticated caller and a page argument that is absent or not
  negative: the page number is 1 when the argument is absent or zero; the result holds
  the posts ordered by creation time, newest first, without the first
  \<open>(n - 1) * 2\<close> and cut to at most 2, each with its creator resolved; the ordered list
  is a permutation of the stored posts; \<^verbatim>\<open>totalPosts\<close> is the size of the whole
  collection; and a page beyond the last one gives the empty list with the same
  \<^verbatim>\<open>totalPosts\<close>. The query changes neither posts nor users, and an absent page and
  page 0 run exactly as page 1 does.
\<close>

theorem posts_page_of_sorted_collection:
  assumes "isAuth r" and "0 \<le> page_number page"
  shows "page_number None = 1 \<and> page_number (Some 0) = 1 \<and>
         fst (posts L page r s) =
           Inr \<lparr>pd_posts = map (\<lambda>p. spread_post L p (lookup_user s (p_creator p)))
                             (take 2 (drop (nat ((page_number page - 1) * 2))
                                (sort_createdAt_desc (post_docs s)))),
                totalPosts = length (post_docs s)\<rparr> \<and>
         sorted_wrt (\<lambda>a b. p_createdAt b \<le> p_createdAt a) (sort_createdAt_desc (post_docs s)) \<and>
         mset (sort_createdAt_desc (post_docs s)) = mset (post_docs s) \<and>
         (int (length (post_docs s)) \<le> (page_number page - 1) * 2 \<longrightarrow>
            fst (posts L page r s) = Inr \<lparr>pd_posts = [], totalPosts = length (post_docs s)\<rparr>) \<and>
         post_docs (snd (posts L page r s)) = post_docs s \<and>
         user_docs (snd (posts L page r s)) = user_docs s \<and>
         posts L None r s = posts L (Some 1) r s \<and>
         posts L (Some 0) r s = posts L (Some 1) r s"
proof -
  have len: "length (sort_createdAt_desc (post_docs s)) = length (post_docs s)"
    by (simp add: sort_createdAt_desc_def)
  have beyond: "drop (nat ((page_number page - 1) * 2)) (sort_createdAt_desc (post_docs s)) = []"
    if "int (length (post_docs s)) \<le> (page_number page - 1) * 2"
    using that len by simp
  have frame: "post_docs (snd (posts L page r s)) = post_docs s \<and>
               user_docs (snd (posts L page r s)) = user_docs s"
    by (simp add: posts_def Post_countDocuments_def Post_find_page_def populate_def populate_one_def emit_def
          Let_def)
  have dflt: "posts L None r s = posts L (Some 1) r s \<and> posts L (Some 0) r s = posts L (Some 1) r s"
    by (simp add: posts_def)
  show ?thesis
    using posts_run [OF assms, of L s] sort_createdAt_desc_sorted sort_createdAt_desc_mset
      beyond frame dflt
    by (simp add: page_number_def)
qed

theorem posts_page_of_sorted_collection_witness:
  "isAuth (authenticated ''5c0f66b979af55031b34728a'') \<and> 0 \<le> page_number None \<and> 0 \<le> page_number (Some 3) \<and>
   fst (posts demo_lib None (authenticated ''5c0f66b979af55031b34728a'') demo_state) =
     Inr \<lparr>pd_posts = [spread_post demo_lib post2 (Some bob), spread_post demo_lib post3 (Some ann)],
          totalPosts = 3\<rparr> \<and>
   int (length (post_docs demo_state)) \<le> (page_number (Some 3) - 1) * 2 \<and>
   fst (posts demo_lib (Some 3) (authenticated ''5c0f66b979af55031b34728a'') demo_state) =
     Inr \<lparr>pd_posts = [], totalPosts = 3\<rparr>"
proof -
  let ?r = "authenticated ''5c0f66b979af55031b34728a''"
  have a: "isAuth ?r"
    by (simp add: authenticated_def)
  have n0: "0 \<le> page_number None" and n3: "0 \<le> page_number (Some 3)"
    by (simp_all add: page_number_def)
  have srt: "sort_createdAt_desc (post_docs demo_state) = [post2, post3, post1]"
    by (simp add: sort_createdAt_desc_def demo_state_def post1_def post2_def post3_def)
  have len: "length (post_docs demo_state) = 3"
    by (simp add: demo_state_def)
  have lk: "lookup_user demo_state (p_creator post2) = Some bob"
    "lookup_user demo_state (p_creator post3) = Some ann"
    by (simp_all add: lookup_user_def demo_state_def post2_def post3_def ann_def bob_def)
  have b3: "int (length (post_docs demo_state)) \<le> (page_number (Some 3) - 1) * 2"
    by (simp add: len page_number_def)
  have first: "fst (posts demo_lib None ?r demo_state) =
     Inr \<lparr>pd_posts = [spread_post demo_lib post2 (Some bob), spread_post demo_lib post3 (Some ann)],
          totalPosts = 3\<rparr>"
    using posts_page_of_sorted_collection [OF a n0, of demo_lib demo_state,
        THEN conjunct2, THEN conjunct2, THEN conjunct1]
    by (simp add: srt len lk page_number_def)
  have third: "fst (posts demo_lib (Some 3) ?r demo_state) = Inr \<lparr>pd_posts = [], totalPosts = 3\<rparr>"
  proof -
    have "fst (posts demo_lib (Some 3) ?r demo_state) =
            Inr \<lparr>pd_posts = [], totalPosts = length (post_docs demo_state)\<rparr>"
      using posts_page_of_sorted_collection [OF a n3, of demo_lib demo_state,
          THEN conjunct2, THEN conjunct2, THEN conjunct2, THEN conjunct2, THEN conjunct2,
          THEN conjunct1] b3
      by (rule mp)
    then show ?thesis
      by (simp add: len)
  qed
  show ?thesis
    by (intro conjI a n0 n3 first b3 third)
qed

end
